theory Spec2Isabelle
  imports Complex_Main "HOL-Library.Sublist"
begin

section \<open>Python strings\<close>

text \<open>
  A Python \<open>str\<close> is modelled as a \<open>string\<close> whose characters are the code points
  below 256. The functions of this section are the \<open>str\<close> methods the pipeline calls.
\<close>

definition isspace :: "char \<Rightarrow> bool" where
  \<comment> \<open>\<open>str.isspace\<close> on one code point below 256\<close>
  "isspace c =
     (let n = (of_char c :: nat)
      in (9 \<le> n \<and> n \<le> 13) \<or> (28 \<le> n \<and> n \<le> 32) \<or> n = 133 \<or> n = 160)"

definition strip :: "string \<Rightarrow> string" where
  \<comment> \<open>\<open>s.strip()\<close>\<close>
  "strip s = rev (dropWhile isspace (rev (dropWhile isspace s)))"

definition lower_char :: "char \<Rightarrow> char" where
  "lower_char c =
     (let n = (of_char c :: nat)
      in if (65 \<le> n \<and> n \<le> 90) \<or> (192 \<le> n \<and> n \<le> 222 \<and> n \<noteq> 215)
         then char_of (n + 32) else c)"

definition lower :: "string \<Rightarrow> string" where
  \<comment> \<open>\<open>s.lower()\<close>\<close>
  "lower s = map lower_char s"

definition startswith :: "string \<Rightarrow> string \<Rightarrow> bool" where
  \<comment> \<open>\<open>s.startswith(p)\<close>\<close>
  "startswith s p = (take (length p) s = p)"

definition endswith :: "string \<Rightarrow> string \<Rightarrow> bool" where
  \<comment> \<open>\<open>s.endswith(p)\<close>\<close>
  "endswith s p = (length p \<le> length s \<and> drop (length s - length p) s = p)"

fun join :: "string \<Rightarrow> string list \<Rightarrow> string" where
  \<comment> \<open>\<open>sep.join(xs)\<close>\<close>
  "join sep [] = []"
| "join sep [x] = x"
| "join sep (x # y # ys) = x @ sep @ join sep (y # ys)"

definition split_first :: "char \<Rightarrow> string \<Rightarrow> string" where
  \<comment> \<open>\<open>s.split(c)[0]\<close>\<close>
  "split_first c s = takeWhile (\<lambda>x. x \<noteq> c) s"

definition split_last :: "char \<Rightarrow> string \<Rightarrow> string" where
  \<comment> \<open>\<open>s.split(c)[-1]\<close>\<close>
  "split_last c s = rev (takeWhile (\<lambda>x. x \<noteq> c) (rev s))"

definition basename :: "string \<Rightarrow> string" where
  \<comment> \<open>\<open>os.path.basename(p)\<close> (POSIX): what follows the last slash\<close>
  "basename p = split_last (CHR ''/'') p"

definition quoted :: "string \<Rightarrow> string" where
  \<comment> \<open>\<open>f"'{s}'"\<close>\<close>
  "quoted s = [CHR 0x27] @ s @ [CHR 0x27]"

definition nl :: string where
  "nl = [CHR 0x0A]"

definition digit_char :: "nat \<Rightarrow> char" where
  "digit_char d = char_of (48 + d)"

function str_nat :: "nat \<Rightarrow> string" where
  "str_nat n = (if n < 10 then [digit_char n] else str_nat (n div 10) @ [digit_char (n mod 10)])"
  by pat_completeness auto
termination
  by (relation "measure id") auto

definition str_int :: "int \<Rightarrow> string" where
  \<comment> \<open>\<open>str(i)\<close> of a Python int\<close>
  "str_int i = (if i < 0 then CHR ''-'' # str_nat (nat (- i)) else str_nat (nat i))"

section \<open>Configuration, exceptions and data\<close>

record settings =
  MINIO_BUCKET_NAME :: string
  MAX_UPLOAD_SIZE :: int
  ALLOWED_EXTENSIONS :: "string list"
  GOOGLE_API_KEY :: "string option"
  AI_MODEL_NAME :: string

text \<open>
  Every exception class the pipeline raises or catches; each is a subclass of
  \<open>Exception\<close>. \<open>S3Error\<close> carries its \<open>code\<close> and its text; \<open>MinioException\<close>
  stands for the instances of that class that are not \<open>S3Error\<close>s, which the handlers
  reach only after the \<open>S3Error\<close> clause. \<open>MaxRetryError\<close> is the error of \<open>urllib3\<close>
  that the MinIO client lets through when it cannot reach the server; it is no
  \<open>MinioException\<close>. \<open>RecursionError\<close> is what \<open>json.loads\<close> raises on a text nested
  too deep.
\<close>

datatype exn =
    HTTPException nat string
  | PdfNotFoundError string
  | PdfExtractionError string
  | S3Error string string
  | MinioException string
  | PdfReadError string
  | NotImplementedError string
  | JSONDecodeError string
  | AIConfigurationError string
  | ValueError string
  | MaxRetryError string
  | RecursionError string
  | OtherException string

fun exn_str :: "exn \<Rightarrow> string" where
  \<comment> \<open>\<open>str(e)\<close>\<close>
  "exn_str (HTTPException code detail) = str_nat code @ '': '' @ detail"
| "exn_str (PdfNotFoundError m) = m"
| "exn_str (PdfExtractionError m) = m"
| "exn_str (S3Error code m) = m"
| "exn_str (MinioException m) = m"
| "exn_str (PdfReadError m) = m"
| "exn_str (NotImplementedError m) = m"
| "exn_str (JSONDecodeError m) = m"
| "exn_str (AIConfigurationError m) = m"
| "exn_str (ValueError m) = m"
| "exn_str (MaxRetryError m) = m"
| "exn_str (RecursionError m) = m"
| "exn_str (OtherException m) = m"

type_synonym bytes = "char list"
type_synonym uuid = string
type_synonym handle = nat

datatype json =
    JNull
  | JBool bool
  | JInt int
  | JFloat real
  | JNaN
  | JInfinity bool
  | JStr string
  | JArr "json list"
  | JObj "(string \<times> json) list"

text \<open>
  The values \<open>json.loads\<close> returns. A float is a real number, or one of the three floats
  that are none: \<open>json.loads\<close> reads the constants \<open>NaN\<close>, \<open>Infinity\<close> and \<open>-Infinity\<close>
  (\<open>JInfinity True\<close> is the negative one).
\<close>

definition py_value :: "json \<Rightarrow> json option" where
  \<comment> \<open>a parsed JSON value as a Python object: \<open>null\<close> is \<open>None\<close>\<close>
  "py_value v = (if v = JNull then None else Some v)"

text \<open>
  Modelled from the spec: the response model \<open>AIProcessingResponse\<close> of
  \<open>app/models/ai.py\<close>, which is not among the sources. Its fields are those of the
  response body: \<open>document_id\<close>, \<open>status\<close>, \<open>ai_structured_output\<close> (a JSON value or
  absent), \<open>model_used\<close>, \<open>error_message\<close> (a string or absent).
\<close>

record AIProcessingResponse =
  document_id :: uuid
  status :: string
  ai_structured_output :: "json option"
  model_used :: string
  error_message :: "string option"

record UploadFile =
  filename :: "string option"
  content_type :: "string option"

record PdfReader =
  is_encrypted :: bool
  decrypt :: "exn + bool"
  pages :: "exn + (exn + string) list"

text \<open>
  The outcomes of the calls that leave the program: the random identifiers, the reads of
  the upload stream, the object store client, the PDF library, the LLM client and the JSON
  parser. A call that can raise returns \<open>Inl\<close> of the exception.
\<close>

record env =
  uuid4_request :: uuid
  uuid4_object :: uuid
  uuid_parse :: "string \<Rightarrow> uuid option"
  file_read :: "exn + bytes"
  file_seek :: "exn option"
  file_read_again :: "exn + bytes"
  put_object :: "string \<Rightarrow> string \<Rightarrow> bytes \<Rightarrow> string \<Rightarrow> exn option"
  get_object :: "string \<Rightarrow> string \<Rightarrow> exn + handle"
  response_read :: "handle \<Rightarrow> exn + bytes"
  response_close :: "handle \<Rightarrow> exn option"
  release_conn :: "handle \<Rightarrow> exn option"
  pdf_reader :: "bytes \<Rightarrow> exn + PdfReader"
  llm_init :: "exn option"
  llm_invoke :: "string \<Rightarrow> string \<Rightarrow> exn + string"
  json_loads :: "string \<Rightarrow> exn + json"

text \<open>The calls made on the outside world, in the order they happen.\<close>

datatype event =
    StoreFile
  | FileRead
  | FileSeek
  | PutObject string string
  | GetObject string string
  | ResponseRead handle
  | ResponseClose handle
  | ReleaseConn handle
  | ParsePdf
  | LlmInvoke string string

section \<open>Object store adapter: \<open>store_file\<close>\<close>

definition store_file :: "settings \<Rightarrow> env \<Rightarrow> UploadFile \<Rightarrow> (exn + string \<times> nat) \<times> event list" where
  "store_file cfg env file =
     (let file_extension = (case filename file of
                              None \<Rightarrow> ''pdf''
                            | Some fn \<Rightarrow> if fn \<noteq> [] then split_last (CHR ''.'') fn else ''pdf'');
          object_name = uuid4_object env @ ''.'' @ file_extension;
          storage_path = MINIO_BUCKET_NAME cfg @ ''/'' @ object_name
      in case file_read_again env of
           Inl e \<Rightarrow> (Inl e, [StoreFile, FileRead])
         | Inr file_content \<Rightarrow>
             (let file_size = length file_content;
                  ctype = (case content_type file of
                             None \<Rightarrow> ''application/pdf''
                           | Some c \<Rightarrow> if c \<noteq> [] then c else ''application/pdf'');
                  tr = [StoreFile, FileRead, PutObject (MINIO_BUCKET_NAME cfg) object_name]
              in case put_object env (MINIO_BUCKET_NAME cfg) object_name file_content ctype of
                   None \<Rightarrow> (Inr (storage_path, file_size), tr)
                 | Some (S3Error code m) \<Rightarrow>
                     (Inl (HTTPException 500 (''Storage service error: '' @ m)), tr)
                 | Some (MinioException m) \<Rightarrow>
                     (Inl (HTTPException 500 (''Storage service error: '' @ m)), tr)
                 | Some e \<Rightarrow> (Inl e, tr)))"

section \<open>Text extractor: \<open>extract_text_from_pdf\<close>\<close>

fun fetch_handler :: "settings \<Rightarrow> string \<Rightarrow> exn \<Rightarrow> exn" where
  \<comment> \<open>the \<open>except\<close> clauses of the fetch, in their order\<close>
  "fetch_handler cfg object_name (S3Error code m) =
     (if code = ''NoSuchKey''
      then PdfNotFoundError (''PDF object '' @ quoted object_name @ '' not found in bucket ''
             @ quoted (MINIO_BUCKET_NAME cfg) @ ''.'')
      else HTTPException 500 (''Storage error retrieving PDF: '' @ code))"
| "fetch_handler cfg object_name (MinioException m) =
     HTTPException 503 (''Storage service connection error: '' @ m)"
| "fetch_handler cfg object_name e =
     HTTPException 500 ''Unexpected error retrieving PDF file.''"

definition fetch_pdf :: "settings \<Rightarrow> env \<Rightarrow> string \<Rightarrow> (exn + bytes) \<times> event list" where
  \<comment> \<open>step 1: the \<open>try\<close> around \<open>get_object\<close> and \<open>read\<close>, with its \<open>finally\<close>. The
      \<open>finally\<close> block runs after the \<open>except\<close> clauses; an exception raised in it
      replaces the outcome of the \<open>try\<close>, and \<open>close\<close> raising skips \<open>release_conn\<close>.\<close>
  "fetch_pdf cfg env object_name =
     (case get_object env (MINIO_BUCKET_NAME cfg) object_name of
        Inl e \<Rightarrow>
          (Inl (fetch_handler cfg object_name e), [GetObject (MINIO_BUCKET_NAME cfg) object_name])
      | Inr response \<Rightarrow>
          (let outcome = (case response_read env response of
                            Inl e \<Rightarrow> Inl (fetch_handler cfg object_name e)
                          | Inr pdf_data \<Rightarrow> Inr pdf_data)
           in case response_close env response of
                Some e \<Rightarrow>
                  (Inl e,
                   [GetObject (MINIO_BUCKET_NAME cfg) object_name, ResponseRead response,
                    ResponseClose response])
              | None \<Rightarrow>
                  (case release_conn env response of
                     Some e \<Rightarrow>
                       (Inl e,
                        [GetObject (MINIO_BUCKET_NAME cfg) object_name, ResponseRead response,
                         ResponseClose response, ReleaseConn response])
                   | None \<Rightarrow>
                       (outcome,
                        [GetObject (MINIO_BUCKET_NAME cfg) object_name, ResponseRead response,
                         ResponseClose response, ReleaseConn response]))))"

fun extract_pages :: "(exn + string) list \<Rightarrow> string list \<Rightarrow> string list" where
  \<comment> \<open>the loop over \<open>reader.pages\<close>; the second argument is \<open>extracted_texts\<close>\<close>
  "extract_pages [] extracted_texts = extracted_texts"
| "extract_pages (Inr page_text # ps) extracted_texts =
     (if page_text \<noteq> [] then extract_pages ps (extracted_texts @ [strip page_text])
      else extract_pages ps extracted_texts)"
| "extract_pages (Inl page_error # ps) extracted_texts = extract_pages ps extracted_texts"

definition read_pdf :: "string \<Rightarrow> PdfReader \<Rightarrow> exn + string list" where
  \<comment> \<open>the body of the parsing \<open>try\<close> once the reader exists\<close>
  "read_pdf object_name reader =
     (case (if is_encrypted reader
            then (case decrypt reader of
                    Inl (NotImplementedError m) \<Rightarrow>
                      Inl (PdfExtractionError
                             (''PDF '' @ quoted object_name @ '' uses unsupported encryption.''))
                  | Inl e \<Rightarrow> Inl e
                  | Inr ok \<Rightarrow>
                      if \<not> ok
                      then Inl (PdfExtractionError
                                  (''PDF '' @ quoted object_name
                                   @ '' is encrypted and password protected.''))
                      else Inr ())
            else Inr ()) of
        Inl e \<Rightarrow> Inl e
      | Inr u \<Rightarrow>
          (case pages reader of
             Inl e \<Rightarrow> Inl e
           | Inr ps \<Rightarrow> Inr (extract_pages ps [])))"

fun parse_handler :: "string \<Rightarrow> exn \<Rightarrow> exn" where
  \<comment> \<open>the \<open>except\<close> clauses of the parsing \<open>try\<close>, in their order\<close>
  "parse_handler object_name (PdfReadError m) =
     PdfExtractionError (''Failed to read PDF '' @ quoted object_name
       @ ''. It might be corrupted or not a valid PDF. Error: '' @ m)"
| "parse_handler object_name e =
     PdfExtractionError (''Unexpected error processing PDF '' @ quoted object_name
       @ '': '' @ exn_str e)"

definition extract_text_from_pdf :: "settings \<Rightarrow> env \<Rightarrow> string \<Rightarrow> (exn + string) \<times> event list" where
  "extract_text_from_pdf cfg env object_name =
     (case fetch_pdf cfg env object_name of
        (Inl e, tr) \<Rightarrow> (Inl e, tr)
      | (Inr pdf_data, tr) \<Rightarrow>
          if pdf_data = []
          then (Inl (PdfExtractionError
                  (''Failed to retrieve valid data for PDF '' @ quoted object_name @ ''.'')), tr)
          else (case pdf_reader env pdf_data of
                  Inl e \<Rightarrow> (Inl (parse_handler object_name e), tr @ [ParsePdf])
                | Inr reader \<Rightarrow>
                    (case read_pdf object_name reader of
                       Inl e \<Rightarrow> (Inl (parse_handler object_name e), tr @ [ParsePdf])
                     | Inr extracted_texts \<Rightarrow>
                         if extracted_texts = [] then (Inr [], tr @ [ParsePdf])
                         else (Inr (join (nl @ nl) extracted_texts), tr @ [ParsePdf]))))"

section \<open>AI processor\<close>

definition AIProcessorService_init :: "settings \<Rightarrow> env \<Rightarrow> exn option" where
  \<comment> \<open>\<open>AIProcessorService.__init__\<close>: the exception it raises, if any\<close>
  "AIProcessorService_init cfg env =
     (if GOOGLE_API_KEY cfg = None \<or> GOOGLE_API_KEY cfg = Some []
      then Some (AIConfigurationError ''GOOGLE_API_KEY environment variable not set.'')
      else (case llm_init env of
              Some e \<Rightarrow> Some (AIConfigurationError (''Failed to configure the AI model: '' @ exn_str e))
            | None \<Rightarrow> None))"

definition ai_processor_service :: "settings \<Rightarrow> env \<Rightarrow> bool" where
  \<comment> \<open>whether the singleton is an instance (\<open>True\<close>) or \<open>None\<close> (\<open>False\<close>)\<close>
  "ai_processor_service cfg env = (AIProcessorService_init cfg env = None)"

definition clean_json_string :: "string \<Rightarrow> string" where
  \<comment> \<open>\<open>_clean_json_string\<close>\<close>
  "clean_json_string raw_string =
     (let cleaned = strip raw_string;
          cleaned = (if startswith cleaned ''```json'' then strip (drop (length ''```json'') cleaned)
                     else if startswith cleaned ''```'' then strip (drop (length ''```'') cleaned)
                     else cleaned)
      in if endswith cleaned ''```'' then strip (take (length cleaned - length ''```'') cleaned)
         else cleaned)"

definition human_message :: "string \<Rightarrow> string" where
  "human_message pdf_content =
     ''Here is the document content to process:'' @ nl @ nl @ ''---'' @ nl @ nl
       @ pdf_content @ nl @ nl @ ''---''"

definition process_content ::
    "settings \<Rightarrow> env \<Rightarrow> uuid \<Rightarrow> string \<Rightarrow> string \<Rightarrow> (exn + AIProcessingResponse) \<times> event list" where
  "process_content cfg env doc_id pdf_content system_prompt =
     (let tr = [LlmInvoke system_prompt (human_message pdf_content)]
      in case llm_invoke env system_prompt (human_message pdf_content) of
           Inl e \<Rightarrow>
             (Inr \<lparr>document_id = doc_id, status = ''error'', ai_structured_output = None,
                   model_used = AI_MODEL_NAME cfg,
                   error_message = Some (''Failed to get response from AI model: '' @ exn_str e)\<rparr>, tr)
         | Inr content \<Rightarrow>
             (let raw_ai_output = strip content;
                  cleaned_output = clean_json_string raw_ai_output
              in case json_loads env cleaned_output of
                   Inr v \<Rightarrow>
                     (Inr \<lparr>document_id = doc_id, status = ''success'',
                           ai_structured_output = py_value v,
                           model_used = AI_MODEL_NAME cfg, error_message = None\<rparr>, tr)
                 | Inl (JSONDecodeError m) \<Rightarrow>
                     (Inr \<lparr>document_id = doc_id, status = ''error'', ai_structured_output = None,
                           model_used = AI_MODEL_NAME cfg,
                           error_message = Some (''AI model response was not valid JSON. Parse Error: ''
                             @ m @ ''. Raw (cleaned) start: '' @ [CHR 0x27] @ take 100 cleaned_output
                             @ ''...'' @ [CHR 0x27])\<rparr>, tr)
                 | Inl e \<Rightarrow>
                     (Inr \<lparr>document_id = doc_id, status = ''error'', ai_structured_output = None,
                           model_used = AI_MODEL_NAME cfg,
                           error_message = Some (''Unexpected error parsing AI output: '' @ exn_str e)\<rparr>,
                      tr)))"

section \<open>Upload orchestrator: \<open>upload_document_and_process\<close>\<close>

definition error_response :: "settings \<Rightarrow> uuid \<Rightarrow> string \<Rightarrow> AIProcessingResponse" where
  \<comment> \<open>\<open>AIProcessingResponse(document_id=..., status="error", error_message=..., model_used=...)\<close>\<close>
  "error_response cfg doc_id msg =
     \<lparr>document_id = doc_id, status = ''error'', ai_structured_output = None,
      model_used = AI_MODEL_NAME cfg, error_message = Some msg\<rparr>"

definition no_text_response :: "settings \<Rightarrow> uuid \<Rightarrow> AIProcessingResponse" where
  "no_text_response cfg doc_id =
     \<lparr>document_id = doc_id, status = ''success'',
      ai_structured_output =
        Some (JObj [(''message'', JStr ''No text content could be extracted from the PDF.'')]),
      model_used = AI_MODEL_NAME cfg,
      error_message = Some ''PDF contained no extractable text content.''\<rparr>"

definition after :: "event list \<Rightarrow> 'a \<times> event list \<Rightarrow> 'a \<times> event list" where
  \<comment> \<open>a step that runs after the calls \<open>tr\<close> were made\<close>
  "after tr r = (fst r, tr @ snd r)"

definition invalid_file_type :: "settings \<Rightarrow> UploadFile \<Rightarrow> bool" where
  \<comment> \<open>the condition of step 1\<close>
  "invalid_file_type cfg file =
     (case filename file of
        None \<Rightarrow> True
      | Some fn \<Rightarrow>
          fn = [] \<or> \<not> list_ex (\<lambda>ext. endswith (lower fn) (''.'' @ ext)) (ALLOWED_EXTENSIONS cfg))"

definition upload_step5 ::
    "settings \<Rightarrow> env \<Rightarrow> string \<Rightarrow> uuid \<Rightarrow> string \<Rightarrow> (exn + AIProcessingResponse) \<times> event list" where
  \<comment> \<open>step 5: process content with AI\<close>
  "upload_step5 cfg env system_prompt final_document_id extracted_text =
     (if \<not> ai_processor_service cfg env
      then (Inr (error_response cfg final_document_id
              ''AI processing service is not available (configuration error?). Check server logs.''), [])
      else (case process_content cfg env final_document_id extracted_text system_prompt of
              (Inr ai_response, tr) \<Rightarrow> (Inr ai_response, tr)
            | (Inl (AIConfigurationError m), tr) \<Rightarrow>
                (Inr (error_response cfg final_document_id
                   (''AI Service configuration error: '' @ m)), tr)
            | (Inl e, tr) \<Rightarrow>
                (Inr (error_response cfg final_document_id
                   (''Unexpected error calling AI processing service: '' @ exn_str e)), tr)))"

definition upload_step4 ::
    "settings \<Rightarrow> env \<Rightarrow> string \<Rightarrow> uuid \<Rightarrow> string \<Rightarrow> (exn + AIProcessingResponse) \<times> event list" where
  \<comment> \<open>step 4: extract text from the PDF, then the empty-text check\<close>
  "upload_step4 cfg env system_prompt final_document_id object_name =
     (if object_name \<noteq> []
      then (case extract_text_from_pdf cfg env object_name of
              (Inl (PdfNotFoundError m), tr) \<Rightarrow>
                (Inr (error_response cfg final_document_id
                   (''Failed to find stored PDF for extraction: '' @ m)), tr)
            | (Inl (PdfExtractionError m), tr) \<Rightarrow>
                (Inr (error_response cfg final_document_id
                   (''Failed to extract text from PDF: '' @ m)), tr)
            | (Inl (HTTPException code detail), tr) \<Rightarrow>
                (Inr (error_response cfg final_document_id
                   (''Storage error during extraction: '' @ detail)), tr)
            | (Inl e, tr) \<Rightarrow>
                (Inr (error_response cfg final_document_id
                   (''Unexpected error during text extraction: '' @ exn_str e)), tr)
            | (Inr extracted_text, tr) \<Rightarrow>
                if extracted_text = [] then (Inr (no_text_response cfg final_document_id), tr)
                else after tr (upload_step5 cfg env system_prompt final_document_id extracted_text))
      else (Inr (error_response cfg final_document_id
              ''Internal error: Storage location missing after successful upload.''), []))"

definition upload_step3 ::
    "settings \<Rightarrow> env \<Rightarrow> UploadFile \<Rightarrow> string \<Rightarrow> uuid \<Rightarrow> (exn + AIProcessingResponse) \<times> event list" where
  \<comment> \<open>step 3: store the file, and the document id taken from the object name\<close>
  "upload_step3 cfg env file system_prompt temp_document_id =
     (case store_file cfg env file of
        (Inl (HTTPException code detail), tr) \<Rightarrow>
          (Inr (error_response cfg temp_document_id (''Storage Error: '' @ detail)), tr)
      | (Inl e, tr) \<Rightarrow>
          (Inr (error_response cfg temp_document_id
             (''Unexpected error storing document: '' @ exn_str e)), tr)
      | (Inr (storage_location, stored_file_size), tr) \<Rightarrow>
          if storage_location \<noteq> []
          then (let object_name = basename storage_location;
                    actual_doc_uuid =
                      (case uuid_parse env (split_first (CHR ''.'') object_name) of
                         Some u \<Rightarrow> u
                       | None \<Rightarrow> temp_document_id)
                in after tr (upload_step4 cfg env system_prompt actual_doc_uuid object_name))
          else (Inr (error_response cfg temp_document_id
                  (''Unexpected error storing document: ''
                   @ ''Storage service did not return a valid location.'')), tr))"

definition upload_document_and_process ::
    "settings \<Rightarrow> env \<Rightarrow> UploadFile \<Rightarrow> string \<Rightarrow> (exn + AIProcessingResponse) \<times> event list" where
  "upload_document_and_process cfg env file system_prompt =
     (let temp_document_id = uuid4_request env
      in if invalid_file_type cfg file
         then (Inr (error_response cfg temp_document_id
                 (''Invalid file type. Only '' @ join '', '' (ALLOWED_EXTENSIONS cfg)
                  @ '' files are allowed.'')), [])
         else (case file_read env of
                 Inl e \<Rightarrow>
                   (Inr (error_response cfg temp_document_id
                      (''Error reading uploaded file: '' @ exn_str e)), [FileRead])
               | Inr file_content \<Rightarrow>
                   if int (length file_content) > MAX_UPLOAD_SIZE cfg
                   then (Inr (error_response cfg temp_document_id
                           (''File size exceeds maximum allowed (''
                            @ str_int (MAX_UPLOAD_SIZE cfg div (1024 * 1024)) @ ''MB).'')),
                         [FileRead])
                   else (case file_seek env of
                           Some e \<Rightarrow>
                             (Inr (error_response cfg temp_document_id
                                (''Error reading uploaded file: '' @ exn_str e)),
                              [FileRead, FileSeek])
                         | None \<Rightarrow>
                             after [FileRead, FileSeek]
                               (upload_step3 cfg env file system_prompt temp_document_id))))"

section \<open>A configuration and an environment to run the pipeline on\<close>

definition default_settings :: settings where
  \<comment> \<open>the defaults of \<open>app/core/config.py\<close>, with an API key set\<close>
  "default_settings =
     \<lparr>MINIO_BUCKET_NAME = ''pdfs'', MAX_UPLOAD_SIZE = 10 * 1024 * 1024,
      ALLOWED_EXTENSIONS = [''pdf''], GOOGLE_API_KEY = Some ''key'',
      AI_MODEL_NAME = ''gemini-2.0-flash''\<rparr>"

definition loads_one :: "string \<Rightarrow> exn + json" where
  \<comment> \<open>a JSON parser that reads the document \<open>1\<close> and rejects every other text\<close>
  "loads_one s =
     (if s = ''1'' then Inr (JInt 1)
      else Inl (JSONDecodeError ''Expecting value: line 1 column 1 (char 0)''))"

definition two_pages :: PdfReader where
  "two_pages = \<lparr>is_encrypted = False, decrypt = Inr True, pages = Inr [Inr ''a '', Inr ''b'']\<rparr>"

definition blank_pages :: PdfReader where
  \<comment> \<open>a scanned document: one page without text, one whose extraction fails\<close>
  "blank_pages =
     \<lparr>is_encrypted = False, decrypt = Inr True,
      pages = Inr [Inr [], Inl (OtherException ''bad page'')]\<rparr>"

definition example_env :: env where
  \<comment> \<open>every call succeeds; the model answers \<open>1\<close> inside a fence\<close>
  "example_env =
     \<lparr>uuid4_request = ''11111111-1111-4111-8111-111111111111'',
      uuid4_object = ''22222222-2222-4222-8222-222222222222'',
      uuid_parse = (\<lambda>s. if length s = 36 then Some s else None),
      file_read = Inr ''%PDF'', file_seek = None, file_read_again = Inr ''%PDF'',
      put_object = (\<lambda>bucket name data ctype. None),
      get_object = (\<lambda>bucket name. Inr 7),
      response_read = (\<lambda>h. Inr ''%PDF''),
      response_close = (\<lambda>h. None),
      release_conn = (\<lambda>h. None),
      pdf_reader = (\<lambda>data. Inr two_pages),
      llm_init = None,
      llm_invoke = (\<lambda>system human. Inr ''```json1```''),
      json_loads = loads_one\<rparr>"

definition scanned_env :: env where
  \<comment> \<open>as \<open>example_env\<close>, for a document whose pages hold no text\<close>
  "scanned_env = example_env\<lparr>pdf_reader := (\<lambda>data. Inr blank_pages)\<rparr>"

definition fenced_env :: env where
  \<comment> \<open>as \<open>example_env\<close>; the model pads the fence and the document with whitespace\<close>
  "fenced_env =
     example_env\<lparr>llm_invoke := (\<lambda>system human. Inr ('' '' @ ''```json'' @ '' 1 '' @ ''```'' @ nl))\<rparr>"

definition formfeed_env :: env where
  \<comment> \<open>as \<open>example_env\<close>; the model puts a form feed before the document\<close>
  "formfeed_env =
     example_env\<lparr>llm_invoke := (\<lambda>system human. Inr (''```json'' @ (CHR 0x0C # ''1'') @ ''```''))\<rparr>"


definition unreachable_env :: env where
  \<comment> \<open>as \<open>example_env\<close>, but the object store cannot be reached when the PDF is fetched\<close>
  "unreachable_env =
     example_env\<lparr>get_object := (\<lambda>bucket name. Inl (MaxRetryError ''Max retries exceeded''))\<rparr>"

definition loads_python :: "string \<Rightarrow> exn + json" where
  \<comment> \<open>as \<open>loads_one\<close>, and like \<open>json.loads\<close> it reads the constant \<open>NaN\<close> and gives up
      on 2000 opening brackets with \<open>RecursionError\<close>\<close>
  "loads_python s =
     (if s = ''NaN'' then Inr JNaN
      else if s = replicate 2000 (CHR ''['')
      then Inl (RecursionError
             ''maximum recursion depth exceeded while decoding a JSON array from a unicode string'')
      else loads_one s)"

definition nan_env :: env where
  \<comment> \<open>the model answers \<open>NaN\<close>\<close>
  "nan_env =
     example_env\<lparr>llm_invoke := (\<lambda>system human. Inr ''NaN''), json_loads := loads_python\<rparr>"

definition nested_env :: env where
  \<comment> \<open>the model answers 2000 opening brackets\<close>
  "nested_env =
     example_env\<lparr>llm_invoke := (\<lambda>system human. Inr (replicate 2000 (CHR ''[''))),
                  json_loads := loads_python\<rparr>"

definition invoice_pdf :: UploadFile where
  "invoice_pdf = \<lparr>filename = Some ''Invoice.PDF'', content_type = Some ''application/pdf''\<rparr>"

definition invoice_txt :: UploadFile where
  "invoice_txt = \<lparr>filename = Some ''invoice.txt'', content_type = Some ''text/plain''\<rparr>"

definition spec_extension_allowed :: "string list \<Rightarrow> string option \<Rightarrow> bool" where
  \<comment> \<open>the check as the specification words it: a case-insensitive suffix match of the
      file name against the allowed set\<close>
  "spec_extension_allowed exts fn =
     (case fn of
        None \<Rightarrow> False
      | Some f \<Rightarrow> list_ex (\<lambda>ext. endswith (lower f) (lower (''.'' @ ext))) exts)"

section \<open>Properties\<close>

subsection \<open>Auxiliary facts\<close>

lemma fst_after [simp]: "fst (after tr r) = fst r"
  by (simp add: after_def)

lemma snd_after [simp]: "snd (after tr r) = tr @ snd r"
  by (simp add: after_def)

subsection \<open>Validation of the upload\<close>

lemma lower_char_idem: "lower_char (lower_char c) = lower_char c"
  by (auto simp: lower_char_def Let_def)

lemma lower_idem: "lower (lower s) = lower s"
  by (simp add: lower_def lower_char_idem)

lemma lower_drop: "lower (drop k s) = drop k (lower s)"
  by (simp add: lower_def drop_map)

lemma endswith_lower_is_lower:
  assumes "endswith (lower f) x"
  shows "lower x = x"
proof -
  from assms have "x = drop (length (lower f) - length x) (lower f)"
    by (simp add: endswith_def)
  then have "x = lower (drop (length (lower f) - length x) f)"
    by (simp add: lower_drop)
  then have "lower x = lower (lower (drop (length (lower f) - length x) f))"
    by simp
  also have "\<dots> = lower (drop (length (lower f) - length x) f)"
    by (rule lower_idem)
  finally show ?thesis
    using \<open>x = lower (drop (length (lower f) - length x) f)\<close> by simp
qed

lemma spec_disallowed_invalid:
  assumes "\<not> spec_extension_allowed (ALLOWED_EXTENSIONS cfg) (filename file)"
  shows "invalid_file_type cfg file"
proof (cases "filename file")
  case None
  then show ?thesis by (simp add: invalid_file_type_def)
next
  case (Some f)
  have "\<not> list_ex (\<lambda>ext. endswith (lower f) (''.'' @ ext)) (ALLOWED_EXTENSIONS cfg)"
  proof
    assume "list_ex (\<lambda>ext. endswith (lower f) (''.'' @ ext)) (ALLOWED_EXTENSIONS cfg)"
    then obtain ext where e: "ext \<in> set (ALLOWED_EXTENSIONS cfg)" "endswith (lower f) (''.'' @ ext)"
      by (auto simp: list_ex_iff)
    from e(2) have "lower (''.'' @ ext) = ''.'' @ ext"
      by (rule endswith_lower_is_lower)
    with e(2) have "endswith (lower f) (lower (''.'' @ ext))"
      by (simp only:)
    with e(1) have "list_ex (\<lambda>ext. endswith (lower f) (lower (''.'' @ ext))) (ALLOWED_EXTENSIONS cfg)"
      unfolding list_ex_iff by blast
    with assms Some show False
      by (simp add: spec_extension_allowed_def)
  qed
  with Some show ?thesis by (simp add: invalid_file_type_def)
qed

text \<open>
  C2. An upload whose file name fails the extension check (as the code makes it, or as a
  case-insensitive suffix match against the allowed set), or whose payload is longer than
  \<open>MAX_UPLOAD_SIZE\<close>, gets a response with \<open>status = error\<close>, and neither \<open>store_file\<close>
  nor \<open>put_object\<close> is called.
\<close>

theorem upload_rejected_without_store:
  assumes "invalid_file_type cfg file
           \<or> \<not> spec_extension_allowed (ALLOWED_EXTENSIONS cfg) (filename file)
           \<or> (\<exists>content. file_read env = Inr content \<and> int (length content) > MAX_UPLOAD_SIZE cfg)"
  shows "\<exists>r. fst (upload_document_and_process cfg env file system_prompt) = Inr r
             \<and> status r = ''error''
             \<and> StoreFile \<notin> set (snd (upload_document_and_process cfg env file system_prompt))
             \<and> (\<forall>bucket name.
                  PutObject bucket name \<notin> set (snd (upload_document_and_process cfg env file system_prompt)))"
proof (cases "invalid_file_type cfg file")
  case True
  then show ?thesis
    by (simp add: upload_document_and_process_def error_response_def)
next
  case False
  with assms spec_disallowed_invalid [of cfg "file"]
  obtain content where "file_read env = Inr content" "int (length content) > MAX_UPLOAD_SIZE cfg"
    by blast
  with False show ?thesis
    by (simp add: upload_document_and_process_def error_response_def)
qed

theorem upload_rejected_without_store_witness:
  "invalid_file_type default_settings invoice_txt
   \<and> (\<exists>content. file_read (example_env\<lparr>file_read := Inr (replicate 10485761 (CHR ''x''))\<rparr>) = Inr content
         \<and> int (length content) > MAX_UPLOAD_SIZE default_settings)
   \<and> (\<exists>r. fst (upload_document_and_process default_settings example_env invoice_txt ''p'') = Inr r
         \<and> status r = ''error''
         \<and> StoreFile \<notin> set (snd (upload_document_and_process default_settings example_env invoice_txt ''p'')))
   \<and> (\<exists>r. fst (upload_document_and_process default_settings
                  (example_env\<lparr>file_read := Inr (replicate 10485761 (CHR ''x''))\<rparr>) invoice_pdf ''p'') = Inr r
         \<and> status r = ''error''
         \<and> StoreFile \<notin> set (snd (upload_document_and_process default_settings
                  (example_env\<lparr>file_read := Inr (replicate 10485761 (CHR ''x''))\<rparr>) invoice_pdf ''p'')))"
proof -
  have a: "invalid_file_type default_settings invoice_txt"
    by code_simp
  have b: "\<exists>content. file_read (example_env\<lparr>file_read := Inr (replicate 10485761 (CHR ''x''))\<rparr>) = Inr content
         \<and> int (length content) > MAX_UPLOAD_SIZE default_settings"
    by (simp add: default_settings_def)
  show ?thesis
    using a b
      upload_rejected_without_store [of default_settings invoice_txt example_env "''p''"]
      upload_rejected_without_store [of default_settings invoice_pdf
        "example_env\<lparr>file_read := Inr (replicate 10485761 (CHR ''x''))\<rparr>" "''p''"]
    by blast
qed

text \<open>
  C10. An upload whose file name is missing or empty gets the invalid-file-type error
  response of step 1, and no call is made on the outside world.
\<close>

theorem upload_without_filename:
  assumes "filename file = None \<or> filename file = Some []"
  shows "upload_document_and_process cfg env file system_prompt =
           (Inr \<lparr>document_id = uuid4_request env, status = ''error'',
                 ai_structured_output = None, model_used = AI_MODEL_NAME cfg,
                 error_message = Some (''Invalid file type. Only ''
                   @ join '', '' (ALLOWED_EXTENSIONS cfg) @ '' files are allowed.'')\<rparr>, [])"
  using assms
  by (auto simp: upload_document_and_process_def invalid_file_type_def error_response_def)

theorem upload_without_filename_witness:
  "filename (invoice_pdf\<lparr>filename := Some []\<rparr>) = Some []
   \<and> upload_document_and_process default_settings example_env (invoice_pdf\<lparr>filename := Some []\<rparr>) ''p'' =
       (Inr \<lparr>document_id = ''11111111-1111-4111-8111-111111111111'', status = ''error'',
             ai_structured_output = None, model_used = ''gemini-2.0-flash'',
             error_message = Some ''Invalid file type. Only pdf files are allowed.''\<rparr>, [])"
  using upload_without_filename [of "invoice_pdf\<lparr>filename := Some []\<rparr>" default_settings example_env "''p''"]
  by (simp add: default_settings_def example_env_def)

subsection \<open>The shape of every response\<close>

lemma process_content_shape:
  "\<exists>r. fst (process_content cfg env d t p) = Inr r \<and> model_used r = AI_MODEL_NAME cfg
       \<and> (status r = ''success'' \<or> status r = ''error'')"
  by (auto simp: process_content_def Let_def split: sum.splits exn.splits)

lemma step5_shape:
  "\<exists>r. fst (upload_step5 cfg env p d t) = Inr r \<and> model_used r = AI_MODEL_NAME cfg
     \<and> (status r = ''success'' \<or> status r = ''error'')"
  using process_content_shape [of cfg env d t p]
  by (auto simp: upload_step5_def error_response_def split: prod.splits sum.splits exn.splits)

lemma step4_shape:
  "\<exists>r. fst (upload_step4 cfg env p d n) = Inr r \<and> model_used r = AI_MODEL_NAME cfg
     \<and> (status r = ''success'' \<or> status r = ''error'')"
  using step5_shape [of cfg env p d]
  by (auto simp: upload_step4_def error_response_def no_text_response_def
      split: prod.splits sum.splits exn.splits)

lemma step3_shape:
  "\<exists>r. fst (upload_step3 cfg env f p d) = Inr r \<and> model_used r = AI_MODEL_NAME cfg
     \<and> (status r = ''success'' \<or> status r = ''error'')"
  using step4_shape [of cfg env p]
  by (auto simp: upload_step3_def error_response_def Let_def
      split: prod.splits sum.splits exn.splits option.splits)

lemma upload_shape:
  "\<exists>r. fst (upload_document_and_process cfg env f p) = Inr r \<and> model_used r = AI_MODEL_NAME cfg
     \<and> (status r = ''success'' \<or> status r = ''error'')"
  using step3_shape [of cfg env f p]
  by (auto simp: upload_document_and_process_def error_response_def Let_def
      split: prod.splits sum.splits exn.splits option.splits)

subsection \<open>When the response is a success\<close>

lemma process_content_success:
  "fst (process_content cfg env d t p) = Inr r \<Longrightarrow>
   (status r = ''success'') =
     (\<exists>c v. llm_invoke env p (human_message t) = Inr c
          \<and> json_loads env (clean_json_string (strip c)) = Inr v)"
  by (auto simp: process_content_def Let_def split: sum.splits exn.splits)

lemma step5_success:
  "fst (upload_step5 cfg env p d t) = Inr r \<Longrightarrow>
   (status r = ''success'') =
     (ai_processor_service cfg env
      \<and> (\<exists>c v. llm_invoke env p (human_message t) = Inr c
            \<and> json_loads env (clean_json_string (strip c)) = Inr v))"
  using process_content_success [of cfg env d t p] process_content_shape [of cfg env d t p]
  by (auto simp: upload_step5_def error_response_def split: prod.splits sum.splits exn.splits if_splits)

lemma step4_success:
  "fst (upload_step4 cfg env p d n) = Inr r \<Longrightarrow>
   (status r = ''success'') =
     (n \<noteq> [] \<and>
      (\<exists>text. fst (extract_text_from_pdf cfg env n) = Inr text \<and>
         (text = [] \<or>
          (ai_processor_service cfg env
           \<and> (\<exists>c v. llm_invoke env p (human_message text) = Inr c
                 \<and> json_loads env (clean_json_string (strip c)) = Inr v)))))"
  using step5_success [of cfg env p d _ r]
  by (auto simp: upload_step4_def error_response_def no_text_response_def
      split: prod.splits sum.splits exn.splits if_splits)

lemma step3_success:
  "fst (upload_step3 cfg env f p d) = Inr r \<Longrightarrow>
   (status r = ''success'') =
     (\<exists>loc sz. fst (store_file cfg env f) = Inr (loc, sz) \<and> basename loc \<noteq> [] \<and>
      (\<exists>text. fst (extract_text_from_pdf cfg env (basename loc)) = Inr text \<and>
         (text = [] \<or>
          (ai_processor_service cfg env
           \<and> (\<exists>c v. llm_invoke env p (human_message text) = Inr c
                 \<and> json_loads env (clean_json_string (strip c)) = Inr v)))))"
  using step4_success [of cfg env p _ _ r]
  by (auto simp: upload_step3_def error_response_def Let_def basename_def split_last_def
      split: prod.splits sum.splits exn.splits option.splits if_splits)

lemma upload_success:
  "fst (upload_document_and_process cfg env f p) = Inr r \<Longrightarrow>
   (status r = ''success'') =
     (\<not> invalid_file_type cfg f \<and>
      (\<exists>content. file_read env = Inr content \<and> int (length content) \<le> MAX_UPLOAD_SIZE cfg) \<and>
      file_seek env = None \<and>
      (\<exists>loc sz. fst (store_file cfg env f) = Inr (loc, sz) \<and> basename loc \<noteq> [] \<and>
      (\<exists>text. fst (extract_text_from_pdf cfg env (basename loc)) = Inr text \<and>
         (text = [] \<or>
          (ai_processor_service cfg env
           \<and> (\<exists>c v. llm_invoke env p (human_message text) = Inr c
                 \<and> json_loads env (clean_json_string (strip c)) = Inr v))))))"
  using step3_success [of cfg env f p _ r]
  by (auto simp: upload_document_and_process_def error_response_def Let_def
      split: prod.splits sum.splits exn.splits option.splits if_splits)

text \<open>
  C1. The handler returns a response on every input and never an exception. The status of
  the response is \<open>success\<close> or \<open>error\<close>, and it is \<open>success\<close> exactly when no stage
  failed: the file type and size are accepted, the stream is read and rewound, the object
  is stored, the text is extracted, and either the text is empty or the AI service exists,
  the model answers and the cleaned answer parses. Every failure of a stage therefore
  ends in a response with \<open>status = error\<close>.
\<close>

theorem upload_always_responds:
  "\<exists>r. fst (upload_document_and_process cfg env file system_prompt) = Inr r
       \<and> (status r = ''success'' \<or> status r = ''error'')
       \<and> (status r = ''success'') =
           (\<not> invalid_file_type cfg file \<and>
            (\<exists>content. file_read env = Inr content
                \<and> int (length content) \<le> MAX_UPLOAD_SIZE cfg) \<and>
            file_seek env = None \<and>
            (\<exists>loc sz. fst (store_file cfg env file) = Inr (loc, sz) \<and> basename loc \<noteq> [] \<and>
               (\<exists>text. fst (extract_text_from_pdf cfg env (basename loc)) = Inr text \<and>
                  (text = [] \<or>
                   (ai_processor_service cfg env
                    \<and> (\<exists>c v. llm_invoke env system_prompt (human_message text) = Inr c
                          \<and> json_loads env (clean_json_string (strip c)) = Inr v))))))"
proof -
  obtain r where r: "fst (upload_document_and_process cfg env file system_prompt) = Inr r"
      "status r = ''success'' \<or> status r = ''error''"
    using upload_shape [of cfg env "file" system_prompt] by blast
  from r(1) upload_success [of cfg env "file" system_prompt r] r(2) show ?thesis
    by blast
qed

theorem upload_always_responds_witness:
  "(\<exists>r. fst (upload_document_and_process default_settings example_env invoice_pdf ''p'') = Inr r
        \<and> status r = ''success'')
   \<and> (\<exists>loc sz. fst (store_file default_settings example_env invoice_pdf) = Inr (loc, sz))
   \<and> (\<exists>r. fst (upload_document_and_process default_settings
                  (example_env\<lparr>put_object := (\<lambda>b n d c. Some (MinioException ''down''))\<rparr>)
                  invoice_pdf ''p'') = Inr r
        \<and> status r = ''error'')"
proof -
  have ok: "fst (upload_document_and_process default_settings example_env invoice_pdf ''p'') =
      Inr \<lparr>document_id = ''22222222-2222-4222-8222-222222222222'', status = ''success'',
           ai_structured_output = Some (JInt 1), model_used = ''gemini-2.0-flash'',
           error_message = None\<rparr>"
    by code_simp
  have down: "\<not> (\<exists>loc sz. fst (store_file default_settings
      (example_env\<lparr>put_object := (\<lambda>b n d c. Some (MinioException ''down''))\<rparr>) invoice_pdf) = Inr (loc, sz))"
    by (simp add: store_file_def example_env_def Let_def)
  show ?thesis
    using ok down
      upload_always_responds [of default_settings example_env invoice_pdf "''p''"]
      upload_always_responds [of default_settings
        "example_env\<lparr>put_object := (\<lambda>b n d c. Some (MinioException ''down''))\<rparr>" invoice_pdf "''p''"]
    by (elim exE conjE) (simp, blast)
qed

text \<open>
  C7. Whatever the outcome, the response of the handler names the configured model, and so
  does the response of \<open>process_content\<close>.
\<close>

theorem model_used_is_configured:
  "(\<exists>r. fst (upload_document_and_process cfg env file system_prompt) = Inr r
        \<and> model_used r = AI_MODEL_NAME cfg)
   \<and> (\<exists>r. fst (process_content cfg env doc_id pdf_content system_prompt) = Inr r
        \<and> model_used r = AI_MODEL_NAME cfg)"
  using upload_shape [of cfg env "file" system_prompt]
    process_content_shape [of cfg env doc_id pdf_content system_prompt]
  by blast

theorem model_used_is_configured_witness:
  "\<exists>r. fst (upload_document_and_process default_settings example_env invoice_txt ''p'') = Inr r
       \<and> model_used r = ''gemini-2.0-flash''"
  using model_used_is_configured [of default_settings example_env invoice_txt "''p''"]
  by (simp add: default_settings_def)

subsection \<open>Fetching the stored object\<close>

lemma fetch_pdf_raises:
  assumes "get_object env (MINIO_BUCKET_NAME cfg) n = Inl e
           \<or> (\<exists>h. get_object env (MINIO_BUCKET_NAME cfg) n = Inr h \<and> response_read env h = Inl e
                  \<and> response_close env h = None \<and> release_conn env h = None)"
  shows "fst (extract_text_from_pdf cfg env n) = Inl (fetch_handler cfg n e)"
  using assms by (auto simp: extract_text_from_pdf_def fetch_pdf_def Let_def)

lemma step4_extract_raises:
  assumes "n \<noteq> []" and "fst (extract_text_from_pdf cfg env n) = Inl e"
  shows "fst (upload_step4 cfg env p d n) =
           Inr (error_response cfg d
             (case e of
                PdfNotFoundError m \<Rightarrow> ''Failed to find stored PDF for extraction: '' @ m
              | PdfExtractionError m \<Rightarrow> ''Failed to extract text from PDF: '' @ m
              | HTTPException code detail \<Rightarrow> ''Storage error during extraction: '' @ detail
              | _ \<Rightarrow> ''Unexpected error during text extraction: '' @ exn_str e))"
  using assms
  by (cases "extract_text_from_pdf cfg env n") (auto simp: upload_step4_def split: exn.splits)

lemma fetch_failure_modes:
  assumes "get_object env (MINIO_BUCKET_NAME cfg) n = Inl e
           \<or> (\<exists>h. get_object env (MINIO_BUCKET_NAME cfg) n = Inr h \<and> response_read env h = Inl e
                  \<and> response_close env h = None \<and> release_conn env h = None)"
  shows "(e = S3Error ''NoSuchKey'' m \<longrightarrow>
            fst (extract_text_from_pdf cfg env n) =
              Inl (PdfNotFoundError (''PDF object '' @ quoted n @ '' not found in bucket ''
                     @ quoted (MINIO_BUCKET_NAME cfg) @ ''.'')))
       \<and> (e = MinioException m \<longrightarrow>
            fst (extract_text_from_pdf cfg env n) =
              Inl (HTTPException 503 (''Storage service connection error: '' @ m)))
       \<and> (e = S3Error code m \<and> code \<noteq> ''NoSuchKey'' \<longrightarrow>
            fst (extract_text_from_pdf cfg env n) =
              Inl (HTTPException 500 (''Storage error retrieving PDF: '' @ code)))
       \<and> ((\<forall>code m. e \<noteq> S3Error code m) \<and> (\<forall>m. e \<noteq> MinioException m) \<longrightarrow>
            fst (extract_text_from_pdf cfg env n) =
              Inl (HTTPException 500 ''Unexpected error retrieving PDF file.''))"
  using fetch_pdf_raises [OF assms] by (cases e) auto

text \<open>
  C8. What the extractor does when the object store cannot be reached at the fetch. The
  MinIO client reports that with \<open>MaxRetryError\<close> of \<open>urllib3\<close>, which is neither an
  \<open>S3Error\<close> nor a \<open>MinioException\<close>: the fetch takes its last \<open>except\<close> clause and raises
  \<open>HTTPException\<close> with status 500 and the text of an unexpected error, exactly what it
  raises for any other unexpected exception, and not the status 503 that the clause for
  connection errors gives. The three classes the clauses do name are told apart.
\<close>

theorem unreachable_store_not_distinguished:
  "get_object unreachable_env ''pdfs'' ''a.pdf'' = Inl (MaxRetryError ''Max retries exceeded'')
   \<and> fst (extract_text_from_pdf default_settings unreachable_env ''a.pdf'') =
       Inl (HTTPException 500 ''Unexpected error retrieving PDF file.'')
   \<and> fst (extract_text_from_pdf default_settings
            (example_env\<lparr>get_object := (\<lambda>b n. Inl (ValueError ''bad argument''))\<rparr>) ''a.pdf'') =
       Inl (HTTPException 500 ''Unexpected error retrieving PDF file.'')
   \<and> fst (upload_step4 default_settings unreachable_env ''p'' ''d'' ''a.pdf'') =
       Inr \<lparr>document_id = ''d'', status = ''error'', ai_structured_output = None,
            model_used = ''gemini-2.0-flash'',
            error_message = Some (''Storage error during extraction: ''
              @ ''Unexpected error retrieving PDF file.'')\<rparr>
   \<and> fst (extract_text_from_pdf default_settings
            (example_env\<lparr>get_object := (\<lambda>b n. Inl (MinioException ''refused''))\<rparr>) ''a.pdf'') =
       Inl (HTTPException 503 ''Storage service connection error: refused'')
   \<and> fst (extract_text_from_pdf default_settings
            (example_env\<lparr>get_object := (\<lambda>b n. Inl (S3Error ''NoSuchKey'' ''gone''))\<rparr>) ''a.pdf'') =
       Inl (PdfNotFoundError (''PDF object '' @ quoted ''a.pdf'' @ '' not found in bucket ''
              @ quoted ''pdfs'' @ ''.''))
   \<and> fst (extract_text_from_pdf default_settings
            (example_env\<lparr>get_object := (\<lambda>b n. Inl (S3Error ''AccessDenied'' ''denied''))\<rparr>) ''a.pdf'') =
       Inl (HTTPException 500 ''Storage error retrieving PDF: AccessDenied'')"
  by code_simp

lemma fetch_releases_after_close:
  assumes "get_object env (MINIO_BUCKET_NAME cfg) object_name = Inr h"
    and "response_close env h = None"
  shows "\<exists>rest. snd (extract_text_from_pdf cfg env object_name) =
             [GetObject (MINIO_BUCKET_NAME cfg) object_name, ResponseRead h,
              ResponseClose h, ReleaseConn h] @ rest
           \<and> set rest \<subseteq> {ParsePdf}"
  using assms
  by (auto simp: extract_text_from_pdf_def fetch_pdf_def Let_def split: sum.splits option.splits)


subsection \<open>Parsing the answer of the model\<close>

lemma strip_plain:
  assumes "s \<noteq> []" and "\<not> isspace (hd s)" and "\<not> isspace (last s)"
  shows "strip s = s"
proof -
  from assms(1,2) have a: "dropWhile isspace s = s"
    by (cases s) simp_all
  from assms(1,3) have "dropWhile isspace (rev s) = rev s"
    by (cases "rev s") (simp_all add: last_rev [symmetric] hd_rev)
  with a show ?thesis
    by (simp add: strip_def)
qed

lemma startswith_prefix: "startswith s p = prefix p s"
proof
  assume "startswith s p"
  then have "take (length p) s = p"
    by (simp add: startswith_def)
  then show "prefix p s"
    by (metis take_is_prefix)
next
  assume "prefix p s"
  then obtain zs where "s = p @ zs"
    by (auto simp: prefix_def)
  then show "startswith s p"
    by (simp add: startswith_def)
qed

lemma clean_plain:
  assumes "strip s = s" and "\<not> startswith s ''```''" and "\<not> endswith s ''```''"
  shows "clean_json_string s = s"
proof -
  have "\<not> startswith s ''```json''"
    using assms(2) by (auto simp: startswith_prefix prefix_def)
  with assms show ?thesis
    by (simp add: clean_json_string_def Let_def)
qed

lemma three_brackets: "replicate 3 (CHR ''['') \<noteq> ''```''"
  by (simp add: numeral_3_eq_3)

lemma brackets_clean:
  "clean_json_string (strip (replicate 2000 (CHR ''[''))) = replicate 2000 (CHR ''['')"
proof -
  have s: "strip (replicate 2000 (CHR ''['')) = replicate 2000 (CHR ''['')"
    by (rule strip_plain) (simp_all add: isspace_def)
  have "clean_json_string (replicate 2000 (CHR ''['')) = replicate 2000 (CHR ''['')"
    using s by (rule clean_plain) (simp_all add: startswith_def endswith_def three_brackets)
  with s show ?thesis
    by simp
qed

lemma brackets_not_nan: "replicate 2000 (CHR ''['') \<noteq> ''NaN''"
proof
  assume "replicate 2000 (CHR ''['') = ''NaN''"
  then have "length (replicate 2000 (CHR ''['')) = length ''NaN''"
    by (rule arg_cong)
  then show False
    by simp
qed

text \<open>
  C6 (as amended). When the parser raises \<open>JSONDecodeError\<close> on the cleaned answer of the
  model, \<open>process_content\<close> returns a response with \<open>status = error\<close>, no structured
  output, and a message that holds the text of the parse error and the first 100
  characters of the cleaned answer. A text that is not JSON but that the parser reads, or
  on which it fails with another exception, is answered otherwise.
\<close>

theorem invalid_json_is_error:
  assumes "llm_invoke env system_prompt (human_message pdf_content) = Inr content"
    and "json_loads env (clean_json_string (strip content)) = Inl (JSONDecodeError m)"
  shows "fst (process_content cfg env doc_id pdf_content system_prompt) =
           Inr \<lparr>document_id = doc_id, status = ''error'', ai_structured_output = None,
                model_used = AI_MODEL_NAME cfg,
                error_message = Some (''AI model response was not valid JSON. Parse Error: ''
                  @ m @ ''. Raw (cleaned) start: '' @ [CHR 0x27]
                  @ take 100 (clean_json_string (strip content)) @ ''...'' @ [CHR 0x27])\<rparr>"
  using assms by (simp add: process_content_def Let_def)

theorem invalid_json_is_error_witness:
  "llm_invoke (example_env\<lparr>llm_invoke := (\<lambda>s h. Inr ''```Sorry```'')\<rparr>) ''p'' (human_message ''a'')
     = Inr ''```Sorry```''
   \<and> json_loads (example_env\<lparr>llm_invoke := (\<lambda>s h. Inr ''```Sorry```'')\<rparr>)
        (clean_json_string (strip ''```Sorry```''))
     = Inl (JSONDecodeError ''Expecting value: line 1 column 1 (char 0)'')
   \<and> fst (process_content default_settings
            (example_env\<lparr>llm_invoke := (\<lambda>s h. Inr ''```Sorry```'')\<rparr>) ''d'' ''a'' ''p'') =
       Inr \<lparr>document_id = ''d'', status = ''error'', ai_structured_output = None,
            model_used = ''gemini-2.0-flash'',
            error_message = Some (''AI model response was not valid JSON. Parse Error: ''
              @ ''Expecting value: line 1 column 1 (char 0)'' @ ''. Raw (cleaned) start: ''
              @ [CHR 0x27] @ ''Sorry'' @ ''...'' @ [CHR 0x27])\<rparr>"
proof -
  have a: "llm_invoke (example_env\<lparr>llm_invoke := (\<lambda>s h. Inr ''```Sorry```'')\<rparr>) ''p''
      (human_message ''a'') = Inr ''```Sorry```''"
    by simp
  have c: "clean_json_string (strip ''```Sorry```'') = ''Sorry''"
    by code_simp
  have b: "json_loads (example_env\<lparr>llm_invoke := (\<lambda>s h. Inr ''```Sorry```'')\<rparr>)
        (clean_json_string (strip ''```Sorry```''))
     = Inl (JSONDecodeError ''Expecting value: line 1 column 1 (char 0)'')"
    unfolding c by (simp add: example_env_def loads_one_def)
  show ?thesis
    using a b invalid_json_is_error [OF a b, of default_settings "''d''"] c
    by (simp add: default_settings_def)
qed

theorem non_json_answer_counterexample:
  "llm_invoke nan_env ''p'' (human_message ''a'') = Inr ''NaN''
   \<and> fst (process_content default_settings nan_env ''d'' ''a'' ''p'') =
       Inr \<lparr>document_id = ''d'', status = ''success'', ai_structured_output = Some JNaN,
            model_used = ''gemini-2.0-flash'', error_message = None\<rparr>
   \<and> llm_invoke nested_env ''p'' (human_message ''a'') = Inr (replicate 2000 (CHR ''[''))
   \<and> fst (process_content default_settings nested_env ''d'' ''a'' ''p'') =
       Inr \<lparr>document_id = ''d'', status = ''error'', ai_structured_output = None,
            model_used = ''gemini-2.0-flash'',
            error_message = Some (''Unexpected error parsing AI output: ''
              @ ''maximum recursion depth exceeded while decoding a JSON array from a unicode string'')\<rparr>"
proof -
  have a: "llm_invoke nan_env ''p'' (human_message ''a'') = Inr ''NaN''
   \<and> fst (process_content default_settings nan_env ''d'' ''a'' ''p'') =
       Inr \<lparr>document_id = ''d'', status = ''success'', ai_structured_output = Some JNaN,
            model_used = ''gemini-2.0-flash'', error_message = None\<rparr>"
    by code_simp
  have b: "llm_invoke nested_env ''p'' (human_message ''a'') = Inr (replicate 2000 (CHR ''[''))"
    by (simp add: nested_env_def)
  have c: "json_loads nested_env (replicate 2000 (CHR ''['')) =
      Inl (RecursionError
        ''maximum recursion depth exceeded while decoding a JSON array from a unicode string'')"
    by (simp add: nested_env_def loads_python_def brackets_not_nan)
  have d: "fst (process_content default_settings nested_env ''d'' ''a'' ''p'') =
       Inr \<lparr>document_id = ''d'', status = ''error'', ai_structured_output = None,
            model_used = ''gemini-2.0-flash'',
            error_message = Some (''Unexpected error parsing AI output: ''
              @ ''maximum recursion depth exceeded while decoding a JSON array from a unicode string'')\<rparr>"
    unfolding process_content_def Let_def b sum.case brackets_clean c
    by (simp add: default_settings_def)
  from a b d show ?thesis
    by simp
qed

subsection \<open>Extracting the pages\<close>

lemma extract_pages_eq:
  "extract_pages ps acc =
     acc @ map strip (filter (\<lambda>t. t \<noteq> []) (map (case_sum (\<lambda>e. []) (\<lambda>t. t)) ps))"
  by (induction ps acc rule: extract_pages.induct) simp_all

lemma extract_parsed:
  assumes "get_object env (MINIO_BUCKET_NAME cfg) n = Inr h"
    and "response_read env h = Inr data" and "data \<noteq> []"
    and "response_close env h = None" and "release_conn env h = None"
    and "pdf_reader env data = Inr reader"
    and "is_encrypted reader \<longrightarrow> decrypt reader = Inr True"
    and "pages reader = Inr ps"
  shows "extract_text_from_pdf cfg env n =
           (Inr (join (nl @ nl)
                  (map strip (filter (\<lambda>t. t \<noteq> []) (map (case_sum (\<lambda>e. []) (\<lambda>t. t)) ps)))),
            [GetObject (MINIO_BUCKET_NAME cfg) n, ResponseRead h, ResponseClose h,
             ReleaseConn h, ParsePdf])"
  using assms
  by (auto simp: extract_text_from_pdf_def fetch_pdf_def read_pdf_def extract_pages_eq Let_def)

text \<open>
  C4 (as amended). For a document that is fetched (read, with the response closed and its
  connection released) and parses into pages, the extracted text
  is the texts of the pages whose text is not empty, each stripped of surrounding
  whitespace, in page order and joined by a blank line. A page whose extraction raises
  counts as a page with empty text and does not stop the loop.
\<close>

theorem extract_joins_stripped_pages:
  assumes "get_object env (MINIO_BUCKET_NAME cfg) n = Inr h"
    and "response_read env h = Inr data" and "data \<noteq> []"
    and "response_close env h = None" and "release_conn env h = None"
    and "pdf_reader env data = Inr reader"
    and "is_encrypted reader \<longrightarrow> decrypt reader = Inr True"
    and "pages reader = Inr ps"
  shows "fst (extract_text_from_pdf cfg env n) =
           Inr (join (nl @ nl)
                 (map strip (filter (\<lambda>t. t \<noteq> []) (map (case_sum (\<lambda>e. []) (\<lambda>t. t)) ps))))"
  using extract_parsed [OF assms] by simp

theorem extract_joins_stripped_pages_witness:
  "get_object example_env (MINIO_BUCKET_NAME default_settings) ''a.pdf'' = Inr 7
   \<and> response_read example_env 7 = Inr ''%PDF''
   \<and> response_close example_env 7 = None \<and> release_conn example_env 7 = None
   \<and> pdf_reader example_env ''%PDF'' = Inr two_pages
   \<and> \<not> is_encrypted two_pages
   \<and> pages two_pages = Inr [Inr ''a '', Inr ''b'']
   \<and> fst (extract_text_from_pdf default_settings example_env ''a.pdf'') = Inr (''a'' @ nl @ nl @ ''b'')"
proof -
  have 1: "get_object example_env (MINIO_BUCKET_NAME default_settings) ''a.pdf'' = Inr 7"
    by (simp add: example_env_def)
  have 2: "response_read example_env 7 = Inr ''%PDF''"
    by (simp add: example_env_def)
  have 3: "''%PDF'' \<noteq> []"
    by simp
  have 4: "pdf_reader example_env ''%PDF'' = Inr two_pages"
    by (simp add: example_env_def)
  have 5: "is_encrypted two_pages \<longrightarrow> decrypt two_pages = Inr True"
    by (simp add: two_pages_def)
  have 6: "pages two_pages = Inr [Inr ''a '', Inr ''b'']"
    by (simp add: two_pages_def)
  have 7: "strip ''a '' = ''a''" "strip ''b'' = ''b''"
    by (simp_all add: strip_def isspace_def)
  have 8: "\<not> is_encrypted two_pages"
    by (simp add: two_pages_def)
  have 9: "response_close example_env 7 = None"
    by (simp add: example_env_def)
  have 10: "release_conn example_env 7 = None"
    by (simp add: example_env_def)
  show ?thesis
    using 1 2 4 6 7 8 9 10 extract_joins_stripped_pages [OF 1 2 3 9 10 4 5 6]
    by simp
qed

theorem extract_raw_pages_counterexample:
  "pages two_pages = Inr [Inr ''a '', Inr ''b'']
   \<and> fst (extract_text_from_pdf default_settings example_env ''a.pdf'')
       = Inr (''a'' @ nl @ nl @ ''b'')
   \<and> fst (extract_text_from_pdf default_settings example_env ''a.pdf'')
       \<noteq> Inr (join (nl @ nl) [''a '', ''b''])"
  by (simp add: two_pages_def) code_simp

subsection \<open>Documents without text\<close>

lemma store_file_no_llm: "LlmInvoke s m \<notin> set (snd (store_file cfg env f))"
  by (auto simp: store_file_def Let_def split: sum.splits option.splits exn.splits)

lemma no_text_pages:
  assumes "\<forall>pg \<in> set ps. pg = Inr [] \<or> (\<exists>e. pg = Inl e)"
  shows "filter (\<lambda>t. t \<noteq> []) (map (case_sum (\<lambda>e. []) (\<lambda>t. t)) ps) = []"
  using assms by (induction ps) auto

lemma step4_no_text:
  assumes "n \<noteq> []" and "extract_text_from_pdf cfg env n = (Inr [], tr)"
  shows "upload_step4 cfg env p d n = (Inr (no_text_response cfg d), tr)"
  using assms by (simp add: upload_step4_def)

lemma step3_stored:
  assumes "fst (store_file cfg env f) = Inr (loc, sz)" and "basename loc \<noteq> []"
  shows "upload_step3 cfg env f p d =
           after (snd (store_file cfg env f))
             (upload_step4 cfg env p
                (case uuid_parse env (split_first (CHR ''.'') (basename loc)) of
                   Some u \<Rightarrow> u | None \<Rightarrow> d)
                (basename loc))"
proof -
  from assms(2) have "loc \<noteq> []"
    by (auto simp: basename_def split_last_def)
  with assms(1) show ?thesis
    by (cases "store_file cfg env f") (simp add: upload_step3_def Let_def)
qed

lemma upload_validated:
  assumes "\<not> invalid_file_type cfg f" and "file_read env = Inr content"
    and "int (length content) \<le> MAX_UPLOAD_SIZE cfg" and "file_seek env = None"
  shows "upload_document_and_process cfg env f p =
           after [FileRead, FileSeek] (upload_step3 cfg env f p (uuid4_request env))"
  using assms by (simp add: upload_document_and_process_def Let_def)

text \<open>
  C3. Take an upload that passes validation and is stored, and whose stored object is
  fetched (read, with the response closed and its connection released) and parses into pages none of which yields text (each page gives the empty text
  or fails). Then \<open>extract_text_from_pdf\<close> returns the empty string, the handler answers
  with \<open>status = success\<close> and the fixed payload that says no text was found, and the LLM
  is never invoked.
\<close>

theorem no_text_is_success:
  assumes "\<not> invalid_file_type cfg file" and "file_read env = Inr content"
    and "int (length content) \<le> MAX_UPLOAD_SIZE cfg" and "file_seek env = None"
    and "fst (store_file cfg env file) = Inr (loc, sz)" and "basename loc \<noteq> []"
    and "get_object env (MINIO_BUCKET_NAME cfg) (basename loc) = Inr h"
    and "response_read env h = Inr data" and "data \<noteq> []"
    and "response_close env h = None" and "release_conn env h = None"
    and "pdf_reader env data = Inr reader"
    and "is_encrypted reader \<longrightarrow> decrypt reader = Inr True"
    and "pages reader = Inr ps"
    and "\<forall>pg \<in> set ps. pg = Inr [] \<or> (\<exists>e. pg = Inl e)"
  shows "fst (extract_text_from_pdf cfg env (basename loc)) = Inr []
       \<and> fst (upload_document_and_process cfg env file system_prompt) =
           Inr \<lparr>document_id = (case uuid_parse env (split_first (CHR ''.'') (basename loc)) of
                                 Some u \<Rightarrow> u | None \<Rightarrow> uuid4_request env),
                status = ''success'',
                ai_structured_output =
                  Some (JObj [(''message'', JStr ''No text content could be extracted from the PDF.'')]),
                model_used = AI_MODEL_NAME cfg,
                error_message = Some ''PDF contained no extractable text content.''\<rparr>
       \<and> (\<forall>s m. LlmInvoke s m \<notin> set (snd (upload_document_and_process cfg env file system_prompt)))"
proof -
  let ?n = "basename loc"
  let ?d = "case uuid_parse env (split_first (CHR ''.'') ?n) of
              Some u \<Rightarrow> u | None \<Rightarrow> uuid4_request env"
  let ?tr = "[GetObject (MINIO_BUCKET_NAME cfg) ?n, ResponseRead h, ResponseClose h,
              ReleaseConn h, ParsePdf]"
  have ex: "extract_text_from_pdf cfg env ?n = (Inr [], ?tr)"
    using extract_parsed [OF assms(7-14)] no_text_pages [OF assms(15)] by simp
  have s4: "upload_step4 cfg env system_prompt ?d ?n = (Inr (no_text_response cfg ?d), ?tr)"
    using assms(6) ex by (rule step4_no_text)
  have up: "upload_document_and_process cfg env file system_prompt =
      after [FileRead, FileSeek] (after (snd (store_file cfg env file))
        (Inr (no_text_response cfg ?d), ?tr))"
    using upload_validated [OF assms(1-4), of system_prompt]
      step3_stored [OF assms(5,6), of system_prompt "uuid4_request env"] s4
    by simp
  have a: "fst (extract_text_from_pdf cfg env ?n) = Inr []"
    using ex by simp
  have b: "fst (upload_document_and_process cfg env file system_prompt) =
      Inr (no_text_response cfg ?d)"
    using up by simp
  have c: "\<forall>s m. LlmInvoke s m \<notin> set (snd (upload_document_and_process cfg env file system_prompt))"
    using up store_file_no_llm [of _ _ cfg env "file"] by simp
  from a b c show ?thesis
    by (simp add: no_text_response_def)
qed

theorem no_text_is_success_witness:
  "\<not> invalid_file_type default_settings invoice_pdf
   \<and> fst (store_file default_settings scanned_env invoice_pdf) =
       Inr (''pdfs/22222222-2222-4222-8222-222222222222.PDF'', 4)
   \<and> pages blank_pages = Inr [Inr [], Inl (OtherException ''bad page'')]
   \<and> fst (upload_document_and_process default_settings scanned_env invoice_pdf ''p'') =
       Inr \<lparr>document_id = ''22222222-2222-4222-8222-222222222222'', status = ''success'',
            ai_structured_output =
              Some (JObj [(''message'', JStr ''No text content could be extracted from the PDF.'')]),
            model_used = ''gemini-2.0-flash'',
            error_message = Some ''PDF contained no extractable text content.''\<rparr>
   \<and> LlmInvoke ''p'' (human_message []) \<notin>
        set (snd (upload_document_and_process default_settings scanned_env invoice_pdf ''p''))"
proof -
  have 1: "\<not> invalid_file_type default_settings invoice_pdf"
    by code_simp
  have 2: "file_read scanned_env = Inr ''%PDF''"
    by (simp add: scanned_env_def example_env_def)
  have 3: "int (length ''%PDF'') \<le> MAX_UPLOAD_SIZE default_settings"
    by (simp add: default_settings_def)
  have 4: "file_seek scanned_env = None"
    by (simp add: scanned_env_def example_env_def)
  have 5: "fst (store_file default_settings scanned_env invoice_pdf) =
      Inr (''pdfs/22222222-2222-4222-8222-222222222222.PDF'', 4)"
    by code_simp
  have n: "basename ''pdfs/22222222-2222-4222-8222-222222222222.PDF'' =
      ''22222222-2222-4222-8222-222222222222.PDF''"
    by code_simp
  have 6: "basename ''pdfs/22222222-2222-4222-8222-222222222222.PDF'' \<noteq> []"
    unfolding n by simp
  have 7: "get_object scanned_env (MINIO_BUCKET_NAME default_settings)
      (basename ''pdfs/22222222-2222-4222-8222-222222222222.PDF'') = Inr 7"
    by (simp add: scanned_env_def example_env_def)
  have 8: "response_read scanned_env 7 = Inr ''%PDF''"
    by (simp add: scanned_env_def example_env_def)
  have 9: "''%PDF'' \<noteq> []"
    by simp
  have c: "response_close scanned_env 7 = None"
    by (simp add: scanned_env_def example_env_def)
  have r: "release_conn scanned_env 7 = None"
    by (simp add: scanned_env_def example_env_def)
  have 10: "pdf_reader scanned_env ''%PDF'' = Inr blank_pages"
    by (simp add: scanned_env_def example_env_def)
  have 11: "is_encrypted blank_pages \<longrightarrow> decrypt blank_pages = Inr True"
    by (simp add: blank_pages_def)
  have 12: "pages blank_pages = Inr [Inr [], Inl (OtherException ''bad page'')]"
    by (simp add: blank_pages_def)
  have 13: "\<forall>pg \<in> set [Inr [], Inl (OtherException ''bad page'')].
      pg = Inr [] \<or> (\<exists>e. pg = Inl e)"
    by simp
  have u: "uuid_parse scanned_env (split_first (CHR ''.'') ''22222222-2222-4222-8222-222222222222.PDF'')
      = Some ''22222222-2222-4222-8222-222222222222''"
    by code_simp
  show ?thesis
    using 1 5 12 no_text_is_success [OF 1 2 3 4 5 6 7 8 9 c r 10 11 12 13, of "''p''"]
    unfolding n u by (simp add: default_settings_def)
qed

subsection \<open>Stripping the fence\<close>

lemma dropWhile_all: "list_all P w \<Longrightarrow> dropWhile P (w @ x) = dropWhile P x"
  by (induction w) auto

lemma dropWhile_all_Nil: "list_all P w \<Longrightarrow> dropWhile P w = []"
  by (induction w) auto

lemma strip_pad:
  assumes "list_all isspace w1" and "list_all isspace w2"
  shows "strip (w1 @ x @ w2) = strip x"
proof -
  have w2: "list_all isspace (rev w2)"
    using assms(2) by (simp add: list_all_iff)
  have l: "dropWhile isspace (w1 @ x @ w2) = dropWhile isspace (x @ w2)"
    using assms(1) by (rule dropWhile_all)
  show ?thesis
  proof (cases "list_all isspace x")
    case True
    then have "list_all isspace (x @ w2)"
      using assms(2) by simp
    then have e1: "dropWhile isspace (x @ w2) = []"
      by (rule dropWhile_all_Nil)
    have e2: "dropWhile isspace x = []"
      using True by (rule dropWhile_all_Nil)
    show ?thesis
      unfolding strip_def l e1 e2 by (rule refl)
  next
    case False
    then obtain c where c: "c \<in> set x" "\<not> isspace c"
      by (auto simp: list_all_iff)
    then have e1: "dropWhile isspace (x @ w2) = dropWhile isspace x @ w2"
      by (rule dropWhile_append1)
    have e2: "dropWhile isspace (rev w2 @ rev (dropWhile isspace x))
        = dropWhile isspace (rev (dropWhile isspace x))"
      using w2 by (rule dropWhile_all)
    show ?thesis
      unfolding strip_def l e1 rev_append e2 by (rule refl)
  qed
qed

lemma strip_before_fence: "strip (s @ ''```'') = dropWhile isspace s @ ''```''"
proof -
  have b: "\<not> isspace (CHR ''`'')"
    by (simp add: isspace_def)
  have "dropWhile isspace (s @ ''```'') = dropWhile isspace s @ ''```''"
  proof (cases "list_all isspace s")
    case True
    then have "dropWhile isspace s = []"
      by (rule dropWhile_all_Nil)
    with True b show ?thesis
      by (simp add: dropWhile_all)
  next
    case False
    then obtain c where "c \<in> set s" "\<not> isspace c"
      by (auto simp: list_all_iff)
    then show ?thesis
      by (rule dropWhile_append1)
  qed
  with b show ?thesis
    by (simp add: strip_def)
qed

lemma strip_dropWhile: "strip (dropWhile isspace s) = strip s"
  by (simp add: strip_def)

lemma strip_fenced: "strip (CHR ''`'' # x @ ''```'') = CHR ''`'' # x @ ''```''"
proof -
  have "strip ((CHR ''`'' # x) @ ''```'') = dropWhile isspace (CHR ''`'' # x) @ ''```''"
    by (rule strip_before_fence)
  then show ?thesis
    by (simp add: isspace_def)
qed

lemma endswith_fence: "endswith (y @ ''```'') ''```''"
  by (simp add: endswith_def)

lemma take_fence: "take (length (y @ ''```'') - length ''```'') (y @ ''```'') = y"
  by simp

lemma clean_json_fence: "clean_json_string (''```json'' @ s @ ''```'') = strip s"
proof -
  have a: "strip (''```json'' @ s @ ''```'') = ''```json'' @ s @ ''```''"
    using strip_fenced [of "''``json'' @ s"] by simp
  have b: "startswith (''```json'' @ s @ ''```'') ''```json''"
    by (simp add: startswith_prefix)
  have c: "drop (length ''```json'') (''```json'' @ s @ ''```'') = s @ ''```''"
    by simp
  show ?thesis
    unfolding clean_json_string_def Let_def a
    by (simp only: b c if_True strip_before_fence endswith_fence take_fence strip_dropWhile)
qed

lemma not_json_prefix:
  assumes "\<not> startswith s ''json''"
  shows "\<not> startswith (''```'' @ s @ ''```'') ''```json''"
proof
  assume "startswith (''```'' @ s @ ''```'') ''```json''"
  then have "prefix ''json'' (s @ ''```'')"
    by (simp add: startswith_prefix)
  then have "prefix ''json'' s \<or> (\<exists>us. ''json'' = s @ us \<and> prefix us ''```'')"
    by (simp only: prefix_append)
  then have "prefix ''json'' s"
    by (auto simp: prefix_Cons Cons_eq_append_conv)
  with assms show False
    by (simp add: startswith_prefix)
qed

lemma clean_bare_fence:
  assumes "\<not> startswith s ''json''"
  shows "clean_json_string (''```'' @ s @ ''```'') = strip s"
proof -
  have a: "strip (''```'' @ s @ ''```'') = ''```'' @ s @ ''```''"
    using strip_fenced [of "''``'' @ s"] by simp
  have b: "startswith (''```'' @ s @ ''```'') ''```''"
    by (simp add: startswith_prefix)
  have n: "\<not> startswith (''```'' @ s @ ''```'') ''```json''"
    using assms by (rule not_json_prefix)
  have c: "drop (length ''```'') (''```'' @ s @ ''```'') = s @ ''```''"
    by simp
  show ?thesis
    unfolding clean_json_string_def Let_def a
    by (simp only: b c n if_True if_False strip_before_fence endswith_fence take_fence
        strip_dropWhile)
qed

lemma clean_fenced:
  assumes "list_all isspace w1" and "list_all isspace w2"
    and "content = w1 @ ''```json'' @ s @ ''```'' @ w2
         \<or> (content = w1 @ ''```'' @ s @ ''```'' @ w2 \<and> \<not> startswith s ''json'')"
  shows "clean_json_string (strip content) = strip s"
proof -
  from assms(3) show ?thesis
  proof
    assume c: "content = w1 @ ''```json'' @ s @ ''```'' @ w2"
    have "strip (w1 @ (''```json'' @ s @ ''```'') @ w2) = strip (''```json'' @ s @ ''```'')"
      using assms(1,2) by (rule strip_pad)
    also have "\<dots> = ''```json'' @ s @ ''```''"
      using strip_fenced [of "''``json'' @ s"] by simp
    finally have "strip content = ''```json'' @ s @ ''```''"
      using c by simp
    then show ?thesis
      by (simp only: clean_json_fence)
  next
    assume c: "content = w1 @ ''```'' @ s @ ''```'' @ w2 \<and> \<not> startswith s ''json''"
    have "strip (w1 @ (''```'' @ s @ ''```'') @ w2) = strip (''```'' @ s @ ''```'')"
      using assms(1,2) by (rule strip_pad)
    also have "\<dots> = ''```'' @ s @ ''```''"
      using strip_fenced [of "''``'' @ s"] by simp
    finally have e: "strip content = ''```'' @ s @ ''```''"
      using c by simp
    from c have "\<not> startswith s ''json''"
      by simp
    then have "clean_json_string (''```'' @ s @ ''```'') = strip s"
      by (rule clean_bare_fence)
    then show ?thesis
      unfolding e .
  qed
qed


lemma process_content_parsed:
  assumes "llm_invoke env p (human_message t) = Inr content"
  shows "\<exists>r. fst (process_content cfg env d t p) = Inr r
            \<and> ai_structured_output r =
                (case json_loads env (clean_json_string (strip content)) of
                   Inr v \<Rightarrow> py_value v | Inl e \<Rightarrow> None)
            \<and> (status r = ''success'') =
                (\<exists>v. json_loads env (clean_json_string (strip content)) = Inr v)"
  using assms
  by (auto simp: process_content_def Let_def split: sum.splits exn.splits)

text \<open>
  C5 (as amended). Let the answer of the model be \<open>s\<close> between a leading fence and a
  trailing fence, with whitespace allowed around the whole; the leading fence is
  \<open>```json\<close>, or the bare fence when \<open>s\<close> does not itself begin with \<open>json\<close>. Then the text
  handed to the parser is \<open>s\<close> stripped of its surrounding whitespace, and the structured
  output of the response is the result of parsing that text. Where the parser returns the
  same for \<open>s\<close> as for the stripped \<open>s\<close>, this is the result of parsing \<open>s\<close> directly.
\<close>

theorem fenced_answer_parsed_as_inner:
  assumes "list_all isspace w1" and "list_all isspace w2"
    and "content = w1 @ ''```json'' @ s @ ''```'' @ w2
         \<or> (content = w1 @ ''```'' @ s @ ''```'' @ w2 \<and> \<not> startswith s ''json'')"
    and "llm_invoke env system_prompt (human_message pdf_content) = Inr content"
  shows "clean_json_string (strip content) = strip s
       \<and> (\<exists>r. fst (process_content cfg env doc_id pdf_content system_prompt) = Inr r
             \<and> ai_structured_output r =
                 (case json_loads env (strip s) of Inr v \<Rightarrow> py_value v | Inl e \<Rightarrow> None)
             \<and> (status r = ''success'') = (\<exists>v. json_loads env (strip s) = Inr v)
             \<and> (json_loads env (strip s) = json_loads env s \<longrightarrow>
                  ai_structured_output r =
                    (case json_loads env s of Inr v \<Rightarrow> py_value v | Inl e \<Rightarrow> None)))"
proof -
  have c: "clean_json_string (strip content) = strip s"
    using assms(1-3) by (rule clean_fenced)
  from process_content_parsed [OF assms(4), of cfg doc_id] show ?thesis
    unfolding c using c by auto
qed

theorem fenced_answer_parsed_as_inner_witness:
  "list_all isspace '' '' \<and> list_all isspace nl
   \<and> llm_invoke fenced_env ''p'' (human_message ''a'') = Inr ('' '' @ ''```json'' @ '' 1 '' @ ''```'' @ nl)
   \<and> strip '' 1 '' = ''1''
   \<and> (\<exists>r. fst (process_content default_settings fenced_env ''d'' ''a'' ''p'') = Inr r
         \<and> ai_structured_output r = Some (JInt 1) \<and> status r = ''success'')"
proof -
  have 1: "list_all isspace '' ''"
    by (simp add: isspace_def)
  have 2: "list_all isspace nl"
    by (simp add: isspace_def nl_def)
  have 3: "'' '' @ ''```json'' @ '' 1 '' @ ''```'' @ nl = '' '' @ ''```json'' @ '' 1 '' @ ''```'' @ nl
      \<or> ('' '' @ ''```json'' @ '' 1 '' @ ''```'' @ nl = '' '' @ ''```'' @ '' 1 '' @ ''```'' @ nl
          \<and> \<not> startswith '' 1 '' ''json'')"
    by simp
  have 4: "llm_invoke fenced_env ''p'' (human_message ''a'')
      = Inr ('' '' @ ''```json'' @ '' 1 '' @ ''```'' @ nl)"
    by (simp add: fenced_env_def)
  have 5: "strip '' 1 '' = ''1''"
    by (simp add: strip_def isspace_def)
  have 6: "json_loads fenced_env ''1'' = Inr (JInt 1)"
    by (simp add: fenced_env_def example_env_def loads_one_def)
  show ?thesis
    using 1 2 4 5 fenced_answer_parsed_as_inner [OF 1 2 3 4, of default_settings "''d''"]
    unfolding 5 6 by (auto simp: py_value_def)
qed

theorem fence_not_transparent_counterexample:
  "llm_invoke example_env ''p'' (human_message ''a'') = Inr (''```'' @ ''json1'' @ ''```'')
   \<and> fst (process_content default_settings example_env ''d'' ''a'' ''p'') =
       Inr \<lparr>document_id = ''d'', status = ''success'', ai_structured_output = Some (JInt 1),
            model_used = ''gemini-2.0-flash'', error_message = None\<rparr>
   \<and> json_loads example_env ''json1'' =
       Inl (JSONDecodeError ''Expecting value: line 1 column 1 (char 0)'')
   \<and> llm_invoke formfeed_env ''p'' (human_message ''a'')
       = Inr (''```json'' @ (CHR 0x0C # ''1'') @ ''```'')
   \<and> fst (process_content default_settings formfeed_env ''d'' ''a'' ''p'') =
       Inr \<lparr>document_id = ''d'', status = ''success'', ai_structured_output = Some (JInt 1),
            model_used = ''gemini-2.0-flash'', error_message = None\<rparr>
   \<and> json_loads formfeed_env (CHR 0x0C # ''1'') =
       Inl (JSONDecodeError ''Expecting value: line 1 column 1 (char 0)'')"
  by code_simp

end
